theory Spec2Isabelle
  imports Complex_Main "HOL-Library.Multiset"
begin

section \<open>The voyage timeline script port-sail-calc.py\<close>

text \<open>
  The script reads a table of vessel log records, computes one absolute event time per
  record, sorts the table by it, and adds to every row the coordinates, the event and the
  event time of the row before it, the great-circle distance to that row, the elapsed hours
  and a stage label. This theory embeds the script statement by statement. The plot at
  the end of the script is not modelled.

  Conventions of the embedding:
  \<^item> a table is the list of its rows, a row a record of its columns;
  \<^item> a floating-point cell is a \<open>real option\<close>, and \<open>None\<close> is the missing value
    (NaN of a number column, NaT of a time column);
  \<^item> the source computes haversine in binary floating point (doubles), and the rounding
    of doubles is outside this theory. The definition \<open>haversine\<close> below is the function
    read in exact real arithmetic. The doubles differ from it: at the points
    \<open>(8, -180)\<close> and \<open>(-8, 0)\<close> the source computes \<open>a = 1.0000000000000002\<close>, and the
    square root of line 23 raises. Therefore the table part takes the function that
    computes the distance as a parameter \<open>hav\<close>, of which nothing is assumed, so that
    every theorem about the table holds of the function as the interpreter runs it;
  \<^item> an event time is the integer number of nanoseconds since 1970-01-01, which is how
    the table stores it; the integers are unbounded here, the 64-bit range of the table
    is not modelled;
  \<^item> the two stamp columns are taken as present numbers, \<open>dateStamp\<close> a whole number;
  \<^item> what the script does on a file without rows is decided by the reader of the file and
    by the conversion of an empty column, and is not modelled: every theorem about the
    whole script takes a table with at least one row;
  \<^item> an exception of the Python \<open>math\<close> module is the left summand of a sum type.
\<close>

subsection \<open>The \<open>math\<close> functions used by haversine\<close>

datatype py_error = ValueError

text \<open>\<open>math.radians\<close>: degrees times \<open>pi / 180\<close>.\<close>

definition radians :: "real \<Rightarrow> real" where
  "radians x = x * (pi / 180)"

text \<open>\<open>math.sqrt\<close> raises ValueError (math domain error) below zero.\<close>

definition py_sqrt :: "real \<Rightarrow> py_error + real" where
  "py_sqrt x = (if x < 0 then Inl ValueError else Inr (sqrt x))"

text \<open>
  \<open>math.atan2 y x\<close>: the angle of the point \<open>(x, y)\<close>, in the interval from \<open>- pi\<close> to
  \<open>pi\<close>. It never raises.
\<close>

definition atan2 :: "real \<Rightarrow> real \<Rightarrow> real" where
  "atan2 y x =
     (if 0 < x then arctan (y / x)
      else if x < 0 then (if 0 \<le> y then arctan (y / x) + pi else arctan (y / x) - pi)
      else if 0 < y then pi / 2
      else if y < 0 then - (pi / 2)
      else 0)"

subsection \<open>haversine (lines 17 to 24)\<close>

text \<open>
  The function body, line by line, in exact arithmetic; the four parameters are rebound
  to their values in radians as in the source. The two calls of \<open>sqrt\<close> are evaluated
  left to right, and either may raise.
\<close>

definition haversine :: "real \<Rightarrow> real \<Rightarrow> real \<Rightarrow> real \<Rightarrow> py_error + real" where
  "haversine lat1 lon1 lat2 lon2 =
     (let R = 6371;
          lat1 = radians lat1; lon1 = radians lon1;
          lat2 = radians lat2; lon2 = radians lon2;
          dlat = lat2 - lat1;
          dlon = lon2 - lon1;
          a = (sin (dlat / 2))\<^sup>2 + cos lat1 * cos lat2 * (sin (dlon / 2))\<^sup>2
      in case py_sqrt a of
           Inl e \<Rightarrow> Inl e
         | Inr sa \<Rightarrow>
             (case py_sqrt (1 - a) of
                Inl e \<Rightarrow> Inl e
              | Inr sb \<Rightarrow> Inr (R * (2 * atan2 sa sb))))"

text \<open>The local variable \<open>a\<close> of haversine (lines 19 to 22), in exact arithmetic.\<close>

definition haversine_a :: "real \<Rightarrow> real \<Rightarrow> real \<Rightarrow> real \<Rightarrow> real" where
  "haversine_a lat1 lon1 lat2 lon2 =
     (let lat1 = radians lat1; lon1 = radians lon1;
          lat2 = radians lat2; lon2 = radians lon2;
          dlat = lat2 - lat1;
          dlon = lon2 - lon1
      in (sin (dlat / 2))\<^sup>2 + cos lat1 * cos lat2 * (sin (dlon / 2))\<^sup>2)"

text \<open>
  Lines 23 and 24 on a given value of \<open>a\<close>: what haversine does once \<open>a\<close> is computed,
  whichever arithmetic computed it.
\<close>

definition haversine_from_a :: "real \<Rightarrow> py_error + real" where
  "haversine_from_a a =
     (case py_sqrt a of
        Inl e \<Rightarrow> Inl e
      | Inr sa \<Rightarrow>
          (case py_sqrt (1 - a) of
             Inl e \<Rightarrow> Inl e
           | Inr sb \<Rightarrow> Inr (6371 * (2 * atan2 sa sb))))"

subsection \<open>The table\<close>

text \<open>
  \<open>raw_row\<close> is a row of the file read on line 8, \<open>row\<close> the same row after line 11 has
  added \<open>event_datetime\<close>, \<open>timeline_row\<close> the row at the end of the script.
\<close>

record raw_row =
  dateStamp :: int
  timeStamp :: real
  lat :: "real option"
  lon :: "real option"
  event :: "string option"

record row = raw_row +
  event_datetime :: int

record timeline_row = row +
  prev_lat :: "real option"
  prev_lon :: "real option"
  distance_travelled :: "real option"
  prev_event :: "string option"
  prev_event_datetime :: "int option"
  duration_hours :: "real option"
  stage :: string

subsection \<open>The event time (line 11)\<close>

definition ns_per_day :: int where
  "ns_per_day = 86400 * 1000000000"

text \<open>The origin 1899-12-30 lies 25569 days before 1970-01-01.\<close>

definition origin_ns :: int where
  "origin_ns = - 25569 * ns_per_day"

text \<open>
  \<open>pd.to_datetime (v, origin='1899-12-30')\<close> on a number. The call passes no \<open>unit\<close>, and
  the unit of \<open>to_datetime\<close> is then nanoseconds: the number counts nanoseconds from the
  origin.
\<close>

definition to_datetime :: "int \<Rightarrow> int" where
  "to_datetime v = origin_ns + v"

definition truncate_toward_zero :: "real \<Rightarrow> int" where
  "truncate_toward_zero x = (if 0 \<le> x then \<lfloor>x\<rfloor> else \<lceil>x\<rceil>)"

text \<open>
  \<open>pd.to_timedelta (x, unit='D')\<close>: \<open>x\<close> days as a whole number of nanoseconds, the rest
  below a nanosecond cut off.
\<close>

definition to_timedelta_D :: "real \<Rightarrow> int" where
  "to_timedelta_D x = truncate_toward_zero (x * of_int ns_per_day)"

definition add_event_datetime :: "raw_row \<Rightarrow> row" where
  "add_event_datetime r =
     \<lparr>dateStamp = dateStamp r, timeStamp = timeStamp r, lat = lat r, lon = lon r,
      event = event r,
      event_datetime = to_datetime (dateStamp r) + to_timedelta_D (timeStamp r)\<rparr>"

subsection \<open>Sorting (line 14)\<close>

text \<open>
  \<open>data.sort_values (by=['event_datetime'])\<close>: ascending by the event time. The call
  names no \<open>kind\<close>, so the algorithm is the default one of the library, which does not
  promise an order among rows of equal event time. The order among such rows in this
  model is that of \<open>sort_key\<close>; no theorem below rests on it: the proofs use only that
  the result is sorted and is a rearrangement of the rows.
\<close>

definition sort_values :: "row list \<Rightarrow> row list" where
  "sort_values data = sort_key event_datetime data"

subsection \<open>Distances (lines 27 to 32)\<close>

text \<open>\<open>column.shift (1)\<close>: every cell moves one row down, the first cell is missing.\<close>

definition shift1 :: "'a option list \<Rightarrow> 'a option list" where
  "shift1 col = take (length col) (None # col)"

text \<open>
  haversine on cells; \<open>hav\<close> is haversine on numbers. A missing argument is NaN; the
  \<open>math\<close> functions return NaN on NaN and do not raise, so the result is NaN and the
  arithmetic of \<open>hav\<close> is not reached.
\<close>

definition haversine_nan_with ::
  "(real \<Rightarrow> real \<Rightarrow> real \<Rightarrow> real \<Rightarrow> py_error + real) \<Rightarrow>
   real option \<Rightarrow> real option \<Rightarrow> real option \<Rightarrow> real option \<Rightarrow> py_error + real option" where
  "haversine_nan_with hav lat1 lon1 lat2 lon2 =
     (case (lat1, lon1, lat2, lon2) of
        (Some a, Some b, Some c, Some d) \<Rightarrow>
          (case hav a b c d of Inl e \<Rightarrow> Inl e | Inr km \<Rightarrow> Inr (Some km))
      | _ \<Rightarrow> Inr None)"

text \<open>\<open>data.apply (f, axis=1)\<close>: \<open>f\<close> on every row in order; the first exception ends it.\<close>

fun apply_axis1 :: "('r \<Rightarrow> 'e + 'a) \<Rightarrow> 'r list \<Rightarrow> 'e + 'a list" where
  "apply_axis1 f [] = Inr []"
| "apply_axis1 f (r # rs) =
     (case f r of
        Inl e \<Rightarrow> Inl e
      | Inr v \<Rightarrow> (case apply_axis1 f rs of Inl e \<Rightarrow> Inl e | Inr vs \<Rightarrow> Inr (v # vs)))"

text \<open>
  The lambda of line 30, on a row together with its \<open>prev_lat\<close> and \<open>prev_lon\<close> cells:
  haversine when \<open>prev_lat\<close> is not null, else 0. Only \<open>prev_lat\<close> is tested.
\<close>

definition distance_lambda_with ::
  "(real \<Rightarrow> real \<Rightarrow> real \<Rightarrow> real \<Rightarrow> py_error + real) \<Rightarrow>
   row \<times> real option \<times> real option \<Rightarrow> py_error + real option" where
  "distance_lambda_with hav = (\<lambda>(r, p_lat, p_lon).
     if p_lat \<noteq> None then haversine_nan_with hav (lat r) (lon r) p_lat p_lon
     else Inr (Some 0))"

subsection \<open>Durations and stages (lines 35 to 39)\<close>

definition total_seconds :: "int \<Rightarrow> real" where
  "total_seconds ns = of_int ns / 1000000000"

text \<open>Line 37: the difference to the previous event time in hours; missing when that is.\<close>

definition duration_cell :: "int \<Rightarrow> int option \<Rightarrow> real option" where
  "duration_cell t p =
     (case p of None \<Rightarrow> None | Some t' \<Rightarrow> Some (total_seconds (t - t') / 3600))"

text \<open>Lines 38 and 39: the nested \<open>np.where\<close>. A missing cell equals no label.\<close>

definition stage_cell :: "string option \<Rightarrow> string option \<Rightarrow> string" where
  "stage_cell ev p_ev =
     (if ev = Some ''SOSP'' \<and> p_ev = Some ''EOSP'' then ''At Sea''
      else if ev = Some ''EOSP'' \<and> p_ev = Some ''SOSP'' then ''At Port''
      else ''Unknown'')"

subsection \<open>The script from line 27 on, and as a whole\<close>

definition enrich_with ::
  "(real \<Rightarrow> real \<Rightarrow> real \<Rightarrow> real \<Rightarrow> py_error + real) \<Rightarrow>
   row list \<Rightarrow> py_error + timeline_row list" where
  "enrich_with hav data =
     (let p_lat = shift1 (map lat data);
          p_lon = shift1 (map lon data)
      in case apply_axis1 (distance_lambda_with hav) (zip data (zip p_lat p_lon)) of
           Inl e \<Rightarrow> Inl e
         | Inr distance \<Rightarrow>
             (let p_event = shift1 (map event data);
                  p_datetime = shift1 (map (\<lambda>r. Some (event_datetime r)) data)
              in Inr (map (\<lambda>i.
                   \<lparr>dateStamp = dateStamp (data ! i), timeStamp = timeStamp (data ! i),
                    lat = lat (data ! i), lon = lon (data ! i), event = event (data ! i),
                    event_datetime = event_datetime (data ! i),
                    prev_lat = p_lat ! i, prev_lon = p_lon ! i,
                    distance_travelled = distance ! i,
                    prev_event = p_event ! i,
                    prev_event_datetime = p_datetime ! i,
                    duration_hours = duration_cell (event_datetime (data ! i)) (p_datetime ! i),
                    stage = stage_cell (event (data ! i)) (p_event ! i)\<rparr>)
                 [0..<length data])))"

definition port_sail_calc_with ::
  "(real \<Rightarrow> real \<Rightarrow> real \<Rightarrow> real \<Rightarrow> py_error + real) \<Rightarrow>
   raw_row list \<Rightarrow> py_error + timeline_row list" where
  "port_sail_calc_with hav csv = enrich_with hav (sort_values (map add_event_datetime csv))"

text \<open>The script with haversine read in exact arithmetic.\<close>

definition port_sail_calc :: "raw_row list \<Rightarrow> py_error + timeline_row list" where
  "port_sail_calc csv = port_sail_calc_with haversine csv"

subsection \<open>Two logs to run the script on\<close>

definition example_log :: "raw_row list" where
  "example_log =
     [\<lparr>dateStamp = 5, timeStamp = 0, lat = None, lon = None, event = Some ''SOSP''\<rparr>,
      \<lparr>dateStamp = 2, timeStamp = 0, lat = None, lon = None, event = Some ''EOSP''\<rparr>]"

definition missing_lat_log :: "raw_row list" where
  "missing_lat_log =
     [\<lparr>dateStamp = 1, timeStamp = 0, lat = Some 0, lon = Some 0, event = Some ''EOSP''\<rparr>,
      \<lparr>dateStamp = 2, timeStamp = 0, lat = None, lon = Some 0, event = Some ''SOSP''\<rparr>,
      \<lparr>dateStamp = 3, timeStamp = 0, lat = Some 1, lon = Some 1, event = Some ''EOSP''\<rparr>]"

section \<open>The great-circle distance\<close>

subsection \<open>The shape of haversine\<close>

lemma haversine_by_a:
  "haversine lat1 lon1 lat2 lon2 =
     haversine_from_a
       ((sin ((radians lat2 - radians lat1) / 2))\<^sup>2 +
        cos (radians lat1) * cos (radians lat2) * (sin ((radians lon2 - radians lon1) / 2))\<^sup>2)"
  by (simp add: haversine_def haversine_from_a_def Let_def cong: sum.case_cong)

lemma sin_half_diff_sq: "(sin ((y - x) / 2))\<^sup>2 = (sin ((x - y) / 2))\<^sup>2" for x y :: real
proof -
  have "(y - x) / 2 = - ((x - y) / 2)" by (simp add: field_simps)
  then show ?thesis by (simp only: sin_minus power2_minus)
qed

text \<open>Above 1 the second square root of line 23 raises, below 0 the first.\<close>

lemma haversine_from_a_raises:
  "a < 0 \<or> 1 < a \<Longrightarrow> haversine_from_a a = Inl ValueError"
  by (auto simp: haversine_from_a_def py_sqrt_def)

lemma haversine_from_a_returns:
  "0 \<le> a \<Longrightarrow> a \<le> 1 \<Longrightarrow>
     haversine_from_a a = Inr (6371 * (2 * atan2 (sqrt a) (sqrt (1 - a))))"
  by (simp add: haversine_from_a_def py_sqrt_def)

subsection \<open>The formula in exact arithmetic\<close>

text \<open>
  The lemmas of this subsection are facts of the formula over the real numbers. They are
  not facts of the doubles of the source, which round every step: there \<open>a\<close> leaves the
  interval from 0 to 1 at some points, see C5 and C10 below.

  With \<open>d = p2 - p1\<close> and \<open>s = p1 + p2\<close>, twice the term is
  \<open>(1 - cos d) * (1 - C) + (1 + cos s) * C\<close>, and twice its distance to 1 is
  \<open>(1 + cos d) * (1 - C) + (1 - cos s) * C\<close>; both are sums of products of
  non-negative numbers when \<open>C\<close> lies between 0 and 1.
\<close>

lemma hav_core_bounds:
  fixes p1 p2 C :: real
  assumes "0 \<le> C" "C \<le> 1"
  shows "0 \<le> (sin ((p2 - p1) / 2))\<^sup>2 + cos p1 * cos p2 * C"
    and "(sin ((p2 - p1) / 2))\<^sup>2 + cos p1 * cos p2 * C \<le> 1"
proof -
  define d where "d = p2 - p1"
  define s where "s = p1 + p2"
  have A: "(sin (d / 2))\<^sup>2 = (1 - cos d) / 2"
    using cos_double_sin [of "d / 2"] by simp
  have B: "cos p1 * cos p2 = (cos d + cos s) / 2"
    unfolding d_def s_def by (simp add: cos_diff cos_add)
  have cd: "- 1 \<le> cos d" "cos d \<le> 1" and cs: "- 1 \<le> cos s" "cos s \<le> 1"
    by simp_all
  have nn: "0 \<le> 1 - cos d" "0 \<le> 1 + cos d" "0 \<le> 1 - cos s" "0 \<le> 1 + cos s" "0 \<le> 1 - C"
    using assms cd cs by linarith+
  have lo: "0 \<le> (1 - cos d) * (1 - C) + (1 + cos s) * C"
    using nn assms(1)
    by (simp add: mult_nonneg_nonneg add_nonneg_nonneg del: cos_ge_minus_one cos_le_one)
  have hi: "0 \<le> (1 + cos d) * (1 - C) + (1 - cos s) * C"
    using nn assms(1)
    by (simp add: mult_nonneg_nonneg add_nonneg_nonneg del: cos_ge_minus_one cos_le_one)
  have e1: "(sin (d / 2))\<^sup>2 + cos p1 * cos p2 * C =
            ((1 - cos d) * (1 - C) + (1 + cos s) * C) / 2"
    unfolding A B by (simp add: field_simps)
  have e2: "1 - ((sin (d / 2))\<^sup>2 + cos p1 * cos p2 * C) =
            ((1 + cos d) * (1 - C) + (1 - cos s) * C) / 2"
    unfolding A B by (simp add: field_simps)
  show "0 \<le> (sin ((p2 - p1) / 2))\<^sup>2 + cos p1 * cos p2 * C"
    using lo e1 unfolding d_def by simp
  show "(sin ((p2 - p1) / 2))\<^sup>2 + cos p1 * cos p2 * C \<le> 1"
    using hi e2 unfolding d_def by simp
qed

lemma sin_sq_unit: "0 \<le> (sin (x::real))\<^sup>2" "(sin (x::real))\<^sup>2 \<le> 1"
  by (simp_all add: abs_square_le_1)

lemma exact_haversine_a_ge0: "0 \<le> haversine_a lat1 lon1 lat2 lon2"
  unfolding haversine_a_def Let_def by (rule hav_core_bounds(1)) (rule sin_sq_unit)+

lemma exact_haversine_a_le1: "haversine_a lat1 lon1 lat2 lon2 \<le> 1"
  unfolding haversine_a_def Let_def by (rule hav_core_bounds(2)) (rule sin_sq_unit)+

lemma haversine_unfold:
  "haversine lat1 lon1 lat2 lon2 = haversine_from_a (haversine_a lat1 lon1 lat2 lon2)"
  by (simp add: haversine_by_a haversine_a_def Let_def)

text \<open>In exact arithmetic neither square root is taken of a negative number.\<close>

lemma exact_haversine_returns:
  "haversine lat1 lon1 lat2 lon2 =
     Inr (6371 * (2 * atan2 (sqrt (haversine_a lat1 lon1 lat2 lon2))
                          (sqrt (1 - haversine_a lat1 lon1 lat2 lon2))))"
  unfolding haversine_unfold
  by (rule haversine_from_a_returns) (rule exact_haversine_a_ge0, rule exact_haversine_a_le1)

lemma atan2_quadrant1:
  "0 \<le> y \<Longrightarrow> 0 \<le> x \<Longrightarrow> 0 \<le> atan2 y x \<and> atan2 y x \<le> pi / 2"
  using arctan_ubound [of "y / x"] by (auto simp: atan2_def less_imp_le)

lemma exact_haversine_range:
  "\<exists>d. haversine lat1 lon1 lat2 lon2 = Inr d \<and> 0 \<le> d \<and> d \<le> 6371 * pi"
proof -
  let ?a = "haversine_a lat1 lon1 lat2 lon2"
  have a: "0 \<le> ?a" "?a \<le> 1" by (rule exact_haversine_a_ge0, rule exact_haversine_a_le1)
  have "0 \<le> atan2 (sqrt ?a) (sqrt (1 - ?a)) \<and> atan2 (sqrt ?a) (sqrt (1 - ?a)) \<le> pi / 2"
    using a by (intro atan2_quadrant1) simp_all
  then show ?thesis by (simp add: exact_haversine_returns)
qed

subsection \<open>The claims about haversine\<close>

text \<open>
  C5. The claim: for every two coordinate pairs haversine returns \<open>R * c\<close> with
  \<open>R = 6371\<close> and \<open>c = 2 * atan2 (sqrt a) (sqrt (1 - a))\<close>. In the doubles of the source
  the value of \<open>a\<close> at the points \<open>(8, -180)\<close> and \<open>(-8, 0)\<close> is \<open>1.0000000000000002\<close>,
  that is \<open>1 + 1 / 2 ^ 52\<close> (traced by hand; the rounding is not part of this theory).
  On that value lines 23 and 24 return nothing: the square root of \<open>1 - a\<close> raises
  ValueError.
\<close>

theorem haversine_raises_at_rounded_a:
  "haversine_from_a (1 + 1 / 2 ^ 52) = Inl ValueError"
  by (simp add: haversine_from_a_def py_sqrt_def)

text \<open>
  C9. haversine is symmetric: applied to the points A, B it gives what it gives applied
  to B, A. The proof uses only that \<open>a\<close> is the same for both orders, so it does not
  depend on \<open>a\<close> lying between 0 and 1: either both orders return the same distance or
  both raise.
\<close>

theorem haversine_symmetric:
  "haversine lat1 lon1 lat2 lon2 = haversine lat2 lon2 lat1 lon1"
  by (simp only: haversine_by_a sin_half_diff_sq [of "radians lat1" "radians lat2"]
        sin_half_diff_sq [of "radians lon1" "radians lon2"]
        mult.commute [of "cos (radians lat1)"])

text \<open>
  C10. The claim: for latitudes between -90 and 90 degrees the value \<open>a\<close> lies between 0
  and 1 and the distance returned lies between 0 and \<open>6371 * pi\<close>. At the points
  \<open>(8, -180)\<close> and \<open>(-8, 0)\<close>, whose latitudes are in that range, the doubles of the source
  give \<open>a = 1 + 1 / 2 ^ 52\<close> (traced by hand, as for C5): this value is above 1, and
  on it lines 23 and 24 return no distance.
\<close>

theorem rounded_a_out_of_range:
  "\<not> (1 + 1 / 2 ^ 52 \<le> (1::real)) \<and> (\<nexists>d. haversine_from_a (1 + 1 / 2 ^ 52) = Inr d)"
  by (simp add: haversine_from_a_def py_sqrt_def)

section \<open>The table pipeline\<close>

subsection \<open>Columns\<close>

lemma shift1_length: "length (shift1 col) = length col"
  by (simp add: shift1_def)

lemma shift1_nth:
  "i < length col \<Longrightarrow> shift1 col ! i = (if i = 0 then None else col ! (i - 1))"
  by (cases i) (simp_all add: shift1_def)

text \<open>When \<open>apply\<close> returns, every call of the function returned, and in row order.\<close>

lemma apply_axis1_nth:
  "apply_axis1 f rs = Inr vs \<Longrightarrow>
     length vs = length rs \<and> (\<forall>i<length rs. f (rs ! i) = Inr (vs ! i))"
proof (induction rs arbitrary: vs)
  case Nil
  then show ?case by simp
next
  case (Cons r rs)
  from Cons.prems obtain v ws
    where v: "f r = Inr v" and ws: "apply_axis1 f rs = Inr ws" and vs: "vs = v # ws"
    by (auto split: sum.splits)
  from Cons.IH [OF ws] have len: "length ws = length rs"
    and nth: "\<forall>i<length rs. f (rs ! i) = Inr (ws ! i)"
    by simp_all
  have "f ((r # rs) ! i) = Inr (vs ! i)" if "i < length (r # rs)" for i
    using that v nth vs by (cases i) simp_all
  then show ?case using len vs by simp
qed

lemma apply_axis1_returns:
  "(\<And>r. r \<in> set rs \<Longrightarrow> \<exists>v. f r = Inr v) \<Longrightarrow> \<exists>vs. apply_axis1 f rs = Inr vs"
proof (induction rs)
  case Nil
  then show ?case by simp
next
  case (Cons r rs)
  from Cons.prems obtain v where v: "f r = Inr v" by auto
  from Cons obtain ws where "apply_axis1 f rs = Inr ws" by auto
  with v show ?case by simp
qed

subsection \<open>The lambda of line 30\<close>

lemma distance_lambda_no_prev:
  "p_lat = None \<Longrightarrow> distance_lambda_with hav (r, p_lat, p_lon) = Inr (Some 0)"
  by (simp add: distance_lambda_with_def)

lemma distance_lambda_missing:
  "p_lat \<noteq> None \<Longrightarrow> lat r = None \<or> lon r = None \<or> p_lon = None \<Longrightarrow>
     distance_lambda_with hav (r, p_lat, p_lon) = Inr None"
  by (auto simp: distance_lambda_with_def haversine_nan_with_def split: option.splits)

text \<open>On a row with a missing coordinate the lambda raises nothing, whatever \<open>hav\<close> does.\<close>

lemma distance_lambda_returns_on_missing:
  "lat r = None \<or> lon r = None \<or> p_lat = None \<or> p_lon = None \<Longrightarrow>
     \<exists>v. distance_lambda_with hav (r, p_lat, p_lon) = Inr v"
  using distance_lambda_no_prev [of p_lat hav r p_lon]
    distance_lambda_missing [of p_lat r p_lon hav]
  by (cases "p_lat = None") auto

lemma distance_lambda_returns:
  "(\<And>a b c d. \<exists>km. hav a b c d = Inr km) \<Longrightarrow> \<exists>v. distance_lambda_with hav x = Inr v"
proof -
  assume h: "\<And>a b c d. \<exists>km. hav a b c d = Inr km"
  obtain r p_lat p_lon where x: "x = (r, p_lat, p_lon)" by (cases x) auto
  show ?thesis
  proof (cases "lat r = None \<or> lon r = None \<or> p_lat = None \<or> p_lon = None")
    case True
    then show ?thesis unfolding x by (rule distance_lambda_returns_on_missing)
  next
    case False
    then obtain a b c d where c: "lat r = Some a" "lon r = Some b" "p_lat = Some c" "p_lon = Some d"
      by auto
    from h [of a b c d] obtain km where "hav a b c d = Inr km" ..
    then show ?thesis
      by (simp add: x c distance_lambda_with_def haversine_nan_with_def)
  qed
qed

subsection \<open>The rows after line 27\<close>

lemma enrich_with_length:
  "enrich_with hav data = Inr out \<Longrightarrow> length out = length data"
  by (auto simp: enrich_with_def Let_def split: sum.splits)

lemma enrich_with_fields:
  assumes "enrich_with hav data = Inr out" and "i < length data"
  shows "dateStamp (out ! i) = dateStamp (data ! i)"
    and "timeStamp (out ! i) = timeStamp (data ! i)"
    and "lat (out ! i) = lat (data ! i)"
    and "lon (out ! i) = lon (data ! i)"
    and "event (out ! i) = event (data ! i)"
    and "event_datetime (out ! i) = event_datetime (data ! i)"
    and "prev_lat (out ! i) = (if i = 0 then None else lat (data ! (i - 1)))"
    and "prev_lon (out ! i) = (if i = 0 then None else lon (data ! (i - 1)))"
    and "prev_event (out ! i) = (if i = 0 then None else event (data ! (i - 1)))"
    and "prev_event_datetime (out ! i) =
           (if i = 0 then None else Some (event_datetime (data ! (i - 1))))"
    and "distance_lambda_with hav (data ! i, prev_lat (out ! i), prev_lon (out ! i)) =
           Inr (distance_travelled (out ! i))"
    and "duration_hours (out ! i) =
           duration_cell (event_datetime (out ! i)) (prev_event_datetime (out ! i))"
    and "stage (out ! i) = stage_cell (event (out ! i)) (prev_event (out ! i))"
proof -
  let ?rows = "zip data (zip (shift1 (map lat data)) (shift1 (map lon data)))"
  from assms(1) obtain distance
    where ap: "apply_axis1 (distance_lambda_with hav) ?rows = Inr distance"
      and out: "out = map (\<lambda>i.
                   \<lparr>dateStamp = dateStamp (data ! i), timeStamp = timeStamp (data ! i),
                    lat = lat (data ! i), lon = lon (data ! i), event = event (data ! i),
                    event_datetime = event_datetime (data ! i),
                    prev_lat = shift1 (map lat data) ! i, prev_lon = shift1 (map lon data) ! i,
                    distance_travelled = distance ! i,
                    prev_event = shift1 (map event data) ! i,
                    prev_event_datetime = shift1 (map (\<lambda>r. Some (event_datetime r)) data) ! i,
                    duration_hours = duration_cell (event_datetime (data ! i))
                      (shift1 (map (\<lambda>r. Some (event_datetime r)) data) ! i),
                    stage = stage_cell (event (data ! i)) (shift1 (map event data) ! i)\<rparr>)
                 [0..<length data]"
    by (auto simp: enrich_with_def Let_def split: sum.splits)
  have i: "i < length ?rows" using assms(2) by (simp add: shift1_length)
  have "distance_lambda_with hav (?rows ! i) = Inr (distance ! i)"
    using apply_axis1_nth [OF ap] i by blast
  then have d: "distance_lambda_with hav
        (data ! i, shift1 (map lat data) ! i, shift1 (map lon data) ! i) = Inr (distance ! i)"
    using assms(2) by (simp add: shift1_length)
  show "dateStamp (out ! i) = dateStamp (data ! i)"
    and "timeStamp (out ! i) = timeStamp (data ! i)"
    and "lat (out ! i) = lat (data ! i)"
    and "lon (out ! i) = lon (data ! i)"
    and "event (out ! i) = event (data ! i)"
    and "event_datetime (out ! i) = event_datetime (data ! i)"
    and "prev_lat (out ! i) = (if i = 0 then None else lat (data ! (i - 1)))"
    and "prev_lon (out ! i) = (if i = 0 then None else lon (data ! (i - 1)))"
    and "prev_event (out ! i) = (if i = 0 then None else event (data ! (i - 1)))"
    and "prev_event_datetime (out ! i) =
           (if i = 0 then None else Some (event_datetime (data ! (i - 1))))"
    and "duration_hours (out ! i) =
           duration_cell (event_datetime (out ! i)) (prev_event_datetime (out ! i))"
    and "stage (out ! i) = stage_cell (event (out ! i)) (prev_event (out ! i))"
    using assms(2) by (simp_all add: out shift1_nth)
  show "distance_lambda_with hav (data ! i, prev_lat (out ! i), prev_lon (out ! i)) =
           Inr (distance_travelled (out ! i))"
    using assms(2) d by (simp add: out)
qed

text \<open>The rows after line 27 exist whenever no call of \<open>hav\<close> raises.\<close>

lemma enrich_with_returns:
  assumes "\<And>a b c d. \<exists>km. hav a b c d = Inr km"
  shows "\<exists>out. enrich_with hav data = Inr out"
proof -
  have "\<exists>v. distance_lambda_with hav x = Inr v" for x
    by (rule distance_lambda_returns) (rule assms)
  then have "\<exists>distance. apply_axis1 (distance_lambda_with hav)
       (zip data (zip (shift1 (map lat data)) (shift1 (map lon data)))) = Inr distance"
    by (intro apply_axis1_returns)
  then show ?thesis by (auto simp: enrich_with_def Let_def)
qed

lemma duration_of_pair:
  "duration_cell t (Some p) = Some (real_of_int (t - p) / 1000000000 / 3600)"
  by (simp add: duration_cell_def total_seconds_def)

lemma stage_cell_cases:
  "(stage_cell ev p = ''At Sea'' \<longleftrightarrow> ev = Some ''SOSP'' \<and> p = Some ''EOSP'') \<and>
   (stage_cell ev p = ''At Port'' \<longleftrightarrow> ev = Some ''EOSP'' \<and> p = Some ''SOSP'') \<and>
   (stage_cell ev p = ''Unknown'' \<longleftrightarrow>
      \<not> (ev = Some ''SOSP'' \<and> p = Some ''EOSP'') \<and> \<not> (ev = Some ''EOSP'' \<and> p = Some ''SOSP''))"
  by (simp add: stage_cell_def)

subsection \<open>The sorted table\<close>

lemma sort_values_length: "length (sort_values data) = length data"
  by (simp add: sort_values_def)

lemma sort_values_sorted: "sorted (map event_datetime (sort_values data))"
  by (simp add: sort_values_def)

lemma sort_values_mset: "mset (sort_values data) = mset data"
  by (simp add: sort_values_def)

lemma sort_values_adjacent:
  assumes "Suc i < length data"
  shows "event_datetime (sort_values data ! i) \<le> event_datetime (sort_values data ! Suc i)"
proof -
  let ?ts = "map event_datetime (sort_values data)"
  have "?ts ! i \<le> ?ts ! Suc i"
    using assms sort_values_sorted [of data]
    by (intro sorted_nth_mono) (simp_all add: sort_values_length)
  then show ?thesis
    using assms by (simp add: sort_values_length)
qed

subsection \<open>The script as a whole\<close>

lemma port_sail_calc_with_length:
  "port_sail_calc_with hav csv = Inr out \<Longrightarrow> length out = length csv"
  using enrich_with_length [of hav "sort_values (map add_event_datetime csv)" out]
  by (simp add: port_sail_calc_with_def sort_values_length)

text \<open>The script returns whenever no call of \<open>hav\<close> raises.\<close>

lemma port_sail_calc_with_returns:
  assumes "\<And>a b c d. \<exists>km. hav a b c d = Inr km"
  shows "\<exists>out. port_sail_calc_with hav csv = Inr out"
  unfolding port_sail_calc_with_def by (rule enrich_with_returns [OF assms])

text \<open>In exact arithmetic haversine raises nowhere, and the script returns.\<close>

lemma exact_port_sail_calc_returns:
  "\<exists>out. port_sail_calc csv = Inr out \<and> length out = length csv"
proof -
  have "\<exists>km. haversine a b c d = Inr km" for a b c d
    by (simp add: exact_haversine_returns)
  from port_sail_calc_with_returns [of haversine, OF this]
  obtain out where "port_sail_calc_with haversine csv = Inr out" ..
  then show ?thesis
    using port_sail_calc_with_length [of haversine csv out] by (simp add: port_sail_calc_def)
qed

lemma enrich_with_raw:
  assumes "enrich_with hav data = Inr out"
  shows "map raw_row.truncate out = map raw_row.truncate data"
proof (rule nth_equalityI)
  have len: "length out = length data" using enrich_with_length [OF assms] .
  then show "length (map raw_row.truncate out) = length (map raw_row.truncate data)" by simp
  fix i assume "i < length (map raw_row.truncate out)"
  then have i: "i < length data" using len by simp
  then show "map raw_row.truncate out ! i = map raw_row.truncate data ! i"
    using enrich_with_fields(1-5) [OF assms i] len by (simp add: raw_row.truncate_def)
qed

lemma add_event_datetime_raw: "raw_row.truncate (add_event_datetime r) = r"
  by (simp add: add_event_datetime_def raw_row.truncate_def)

text \<open>The rows returned are the rows read, rearranged, each with its added columns.\<close>

lemma port_sail_calc_with_permutes:
  assumes "port_sail_calc_with hav csv = Inr out"
  shows "mset (map raw_row.truncate out) = mset csv"
proof -
  have "map raw_row.truncate out =
        map raw_row.truncate (sort_values (map add_event_datetime csv))"
    using assms by (intro enrich_with_raw [of hav]) (simp add: port_sail_calc_with_def)
  then have "mset (map raw_row.truncate out) =
        image_mset raw_row.truncate (mset (sort_values (map add_event_datetime csv)))"
    by simp
  also have "\<dots> = image_mset raw_row.truncate (mset (map add_event_datetime csv))"
    by (simp only: sort_values_mset)
  also have "\<dots> = mset csv"
    by (simp add: image_mset.compositionality comp_def add_event_datetime_raw)
  finally show ?thesis .
qed

text \<open>The properties of the rows that the claims below are about, for any \<open>hav\<close>.\<close>

lemma table_rows:
  assumes run: "port_sail_calc_with hav csv = Inr out"
  shows "length out = length csv"
    and "0 < length out \<Longrightarrow>
           prev_lat (out ! 0) = None \<and> prev_lon (out ! 0) = None \<and>
           prev_event (out ! 0) = None \<and> prev_event_datetime (out ! 0) = None \<and>
           distance_travelled (out ! 0) = Some 0 \<and> duration_hours (out ! 0) = None \<and>
           stage (out ! 0) = ''Unknown''"
    and "0 < i \<Longrightarrow> i < length out \<Longrightarrow>
           prev_lat (out ! i) = lat (out ! (i - 1)) \<and>
           prev_lon (out ! i) = lon (out ! (i - 1)) \<and>
           prev_event (out ! i) = event (out ! (i - 1)) \<and>
           prev_event_datetime (out ! i) = Some (event_datetime (out ! (i - 1))) \<and>
           event_datetime (out ! (i - 1)) \<le> event_datetime (out ! i) \<and>
           distance_lambda_with hav
             (row.truncate (out ! i), lat (out ! (i - 1)), lon (out ! (i - 1))) =
             Inr (distance_travelled (out ! i)) \<and>
           duration_hours (out ! i) =
             Some (real_of_int (event_datetime (out ! i) - event_datetime (out ! (i - 1)))
                     / 1000000000 / 3600) \<and>
           stage (out ! i) = stage_cell (event (out ! i)) (event (out ! (i - 1)))"
proof -
  let ?data = "sort_values (map add_event_datetime csv)"
  have out: "enrich_with hav ?data = Inr out"
    using run by (simp add: port_sail_calc_with_def)
  have len: "length out = length ?data" by (rule enrich_with_length [OF out])
  show n: "length out = length csv" using len by (simp add: sort_values_length)
  {
    assume "0 < length out"
    then have pos: "0 < length ?data" using len by simp
    note f = enrich_with_fields [OF out pos]
    have p: "prev_lat (out ! 0) = None" "prev_lon (out ! 0) = None"
      "prev_event (out ! 0) = None" "prev_event_datetime (out ! 0) = None"
      using f(7-10) by simp_all
    have "Inr (distance_travelled (out ! 0)) = (Inr (Some 0) :: py_error + real option)"
      using f(11) p(1) by (simp add: distance_lambda_no_prev)
    then have d: "distance_travelled (out ! 0) = Some 0" by simp
    have "duration_hours (out ! 0) = None" "stage (out ! 0) = ''Unknown''"
      using f(12,13) p by (simp_all add: duration_cell_def stage_cell_def)
    with p d show "prev_lat (out ! 0) = None \<and> prev_lon (out ! 0) = None \<and>
           prev_event (out ! 0) = None \<and> prev_event_datetime (out ! 0) = None \<and>
           distance_travelled (out ! 0) = Some 0 \<and> duration_hours (out ! 0) = None \<and>
           stage (out ! 0) = ''Unknown''"
      by simp
  }
  {
    assume i: "0 < i" "i < length out"
    obtain j where j: "i = Suc j" using i(1) by (cases i) auto
    have b: "j < length ?data" "Suc j < length ?data" using i len j by simp_all
    note fj = enrich_with_fields [OF out b(1)]
    note fi = enrich_with_fields [OF out b(2)]
    have le: "event_datetime (?data ! j) \<le> event_datetime (?data ! Suc j)"
      using b(2) by (intro sort_values_adjacent) (simp add: sort_values_length)
    have pl: "prev_lat (out ! Suc j) = lat (out ! j)" using fi(7) fj(3) by simp
    have po: "prev_lon (out ! Suc j) = lon (out ! j)" using fi(8) fj(4) by simp
    have pe: "prev_event (out ! Suc j) = event (out ! j)" using fi(9) fj(5) by simp
    have pt: "prev_event_datetime (out ! Suc j) = Some (event_datetime (out ! j))"
      using fi(10) fj(6) by simp
    have mono: "event_datetime (out ! j) \<le> event_datetime (out ! Suc j)"
      using le fi(6) fj(6) by simp
    have tr: "row.truncate (out ! Suc j) = ?data ! Suc j"
      using fi(1-6) by (cases "?data ! Suc j") (simp add: row.truncate_def)
    have dl: "distance_lambda_with hav (row.truncate (out ! Suc j), lat (out ! j), lon (out ! j)) =
             Inr (distance_travelled (out ! Suc j))"
      using fi(11) pl po tr by simp
    have du: "duration_hours (out ! Suc j) =
             Some (real_of_int (event_datetime (out ! Suc j) - event_datetime (out ! j))
                     / 1000000000 / 3600)"
      using fi(12) pt by (simp add: duration_of_pair)
    have st: "stage (out ! Suc j) = stage_cell (event (out ! Suc j)) (event (out ! j))"
      using fi(13) pe by simp
    from pl po pe pt mono dl du st
    show "prev_lat (out ! i) = lat (out ! (i - 1)) \<and>
           prev_lon (out ! i) = lon (out ! (i - 1)) \<and>
           prev_event (out ! i) = event (out ! (i - 1)) \<and>
           prev_event_datetime (out ! i) = Some (event_datetime (out ! (i - 1))) \<and>
           event_datetime (out ! (i - 1)) \<le> event_datetime (out ! i) \<and>
           distance_lambda_with hav
             (row.truncate (out ! i), lat (out ! (i - 1)), lon (out ! (i - 1))) =
             Inr (distance_travelled (out ! i)) \<and>
           duration_hours (out ! i) =
             Some (real_of_int (event_datetime (out ! i) - event_datetime (out ! (i - 1)))
                     / 1000000000 / 3600) \<and>
           stage (out ! i) = stage_cell (event (out ! i)) (event (out ! (i - 1)))"
      unfolding j diff_Suc_1 by simp
  }
qed

subsection \<open>The event time of a row\<close>

lemma event_datetime_value:
  "event_datetime (add_event_datetime r) =
     origin_ns + dateStamp r + to_timedelta_D (timeStamp r)"
  by (simp add: add_event_datetime_def to_datetime_def)

subsection \<open>The two logs, run\<close>

lemma to_timedelta_D_0: "to_timedelta_D 0 = 0"
  by (simp add: to_timedelta_D_def truncate_toward_zero_def)

lemma to_timedelta_D_half: "to_timedelta_D (1 / 2) = 43200000000000"
  by (simp add: to_timedelta_D_def truncate_toward_zero_def ns_per_day_def)

lemmas run_simps =
  port_sail_calc_def port_sail_calc_with_def enrich_with_def sort_values_def
  add_event_datetime_def to_datetime_def to_timedelta_D_0 shift1_def
  distance_lambda_with_def haversine_nan_with_def duration_cell_def
  stage_cell_def total_seconds_def Let_def
  upt_rec [of 0] upt_rec [of 1] upt_rec [of 2] upt_rec [of 3]

lemma example_log_run:
  "port_sail_calc example_log = Inr
    [\<lparr>dateStamp = 2, timeStamp = 0, lat = None, lon = None, event = Some ''EOSP'',
      event_datetime = origin_ns + 2, prev_lat = None, prev_lon = None,
      distance_travelled = Some 0, prev_event = None, prev_event_datetime = None,
      duration_hours = None, stage = ''Unknown''\<rparr>,
     \<lparr>dateStamp = 5, timeStamp = 0, lat = None, lon = None, event = Some ''SOSP'',
      event_datetime = origin_ns + 5, prev_lat = None, prev_lon = None,
      distance_travelled = Some 0, prev_event = Some ''EOSP'',
      prev_event_datetime = Some (origin_ns + 2),
      duration_hours = Some (3 / 1000000000 / 3600), stage = ''At Sea''\<rparr>]"
  by (simp add: example_log_def run_simps)

lemma missing_lat_log_run:
  "port_sail_calc missing_lat_log = Inr
    [\<lparr>dateStamp = 1, timeStamp = 0, lat = Some 0, lon = Some 0, event = Some ''EOSP'',
      event_datetime = origin_ns + 1, prev_lat = None, prev_lon = None,
      distance_travelled = Some 0, prev_event = None, prev_event_datetime = None,
      duration_hours = None, stage = ''Unknown''\<rparr>,
     \<lparr>dateStamp = 2, timeStamp = 0, lat = None, lon = Some 0, event = Some ''SOSP'',
      event_datetime = origin_ns + 2, prev_lat = Some 0, prev_lon = Some 0,
      distance_travelled = None, prev_event = Some ''EOSP'',
      prev_event_datetime = Some (origin_ns + 1),
      duration_hours = Some (1 / 1000000000 / 3600), stage = ''At Sea''\<rparr>,
     \<lparr>dateStamp = 3, timeStamp = 0, lat = Some 1, lon = Some 1, event = Some ''EOSP'',
      event_datetime = origin_ns + 3, prev_lat = None, prev_lon = Some 0,
      distance_travelled = Some 0, prev_event = Some ''SOSP'',
      prev_event_datetime = Some (origin_ns + 2),
      duration_hours = Some (1 / 1000000000 / 3600), stage = ''At Port''\<rparr>]"
  by (simp add: missing_lat_log_def run_simps)

section \<open>The claims about the table\<close>

text \<open>
  In the theorems of this section \<open>hav\<close> is any function in the place of haversine, and
  \<open>out\<close> is the table the script returns with it. Nothing is assumed of \<open>hav\<close>, so the
  theorems hold of the script as the interpreter runs it, on every run that returns.
  The witnesses run the script with \<open>haversine\<close> itself on the two logs; no call of it on
  four numbers occurs there.
\<close>

text \<open>
  C1. For every record at an index \<open>i > 0\<close> of the output, the stage is \<open>At Sea\<close> exactly
  when the event of the record is SOSP and the event of the record before it is EOSP; it
  is \<open>At Port\<close> exactly when the event is EOSP and the event before is SOSP; it is
  \<open>Unknown\<close> in every other case, whatever the labels. The stage is a function of the
  pair of the event and \<open>prev_event\<close> alone, and \<open>prev_event\<close> is the event of the record
  before.
\<close>

theorem stage_classification:
  assumes "csv \<noteq> []" and "port_sail_calc_with hav csv = Inr out"
  shows "length out = length csv \<and>
     (\<forall>i. 0 < i \<and> i < length out \<longrightarrow>
        prev_event (out ! i) = event (out ! (i - 1)) \<and>
        stage (out ! i) = stage_cell (event (out ! i)) (prev_event (out ! i)) \<and>
        (stage (out ! i) = ''At Sea'' \<longleftrightarrow>
           event (out ! i) = Some ''SOSP'' \<and> event (out ! (i - 1)) = Some ''EOSP'') \<and>
        (stage (out ! i) = ''At Port'' \<longleftrightarrow>
           event (out ! i) = Some ''EOSP'' \<and> event (out ! (i - 1)) = Some ''SOSP'') \<and>
        (stage (out ! i) = ''Unknown'' \<longleftrightarrow>
           \<not> (event (out ! i) = Some ''SOSP'' \<and> event (out ! (i - 1)) = Some ''EOSP'') \<and>
           \<not> (event (out ! i) = Some ''EOSP'' \<and> event (out ! (i - 1)) = Some ''SOSP'')))"
proof -
  have "prev_event (out ! i) = event (out ! (i - 1)) \<and>
        stage (out ! i) = stage_cell (event (out ! i)) (prev_event (out ! i)) \<and>
        (stage (out ! i) = ''At Sea'' \<longleftrightarrow>
           event (out ! i) = Some ''SOSP'' \<and> event (out ! (i - 1)) = Some ''EOSP'') \<and>
        (stage (out ! i) = ''At Port'' \<longleftrightarrow>
           event (out ! i) = Some ''EOSP'' \<and> event (out ! (i - 1)) = Some ''SOSP'') \<and>
        (stage (out ! i) = ''Unknown'' \<longleftrightarrow>
           \<not> (event (out ! i) = Some ''SOSP'' \<and> event (out ! (i - 1)) = Some ''EOSP'') \<and>
           \<not> (event (out ! i) = Some ''EOSP'' \<and> event (out ! (i - 1)) = Some ''SOSP''))"
    if i: "0 < i" "i < length out" for i
  proof -
    from table_rows(3) [OF assms(2) i]
    have pe: "prev_event (out ! i) = event (out ! (i - 1))"
      and st: "stage (out ! i) = stage_cell (event (out ! i)) (event (out ! (i - 1)))"
      by simp_all
    show ?thesis
      using stage_cell_cases [of "event (out ! i)" "event (out ! (i - 1))"] pe
      unfolding st pe by blast
  qed
  with table_rows(1) [OF assms(2)] show ?thesis by blast
qed

theorem stage_classification_witness:
  "example_log \<noteq> [] \<and>
   (\<exists>out. port_sail_calc example_log = Inr out \<and> length out = 2 \<and>
       event (out ! 0) = Some ''EOSP'' \<and> event (out ! 1) = Some ''SOSP'' \<and>
       prev_event (out ! 1) = Some ''EOSP'' \<and> stage (out ! 1) = ''At Sea'')"
proof -
  have ne: "example_log \<noteq> []" by (simp add: example_log_def)
  obtain out where run: "port_sail_calc_with haversine example_log = Inr out"
    using example_log_run unfolding port_sail_calc_def by blast
  note th = stage_classification [OF ne run]
  have len: "length out = length example_log"
    by (rule th [THEN conjunct1])
  have body: "\<forall>i. 0 < i \<and> i < length out \<longrightarrow>
        prev_event (out ! i) = event (out ! (i - 1)) \<and>
        stage (out ! i) = stage_cell (event (out ! i)) (prev_event (out ! i)) \<and>
        (stage (out ! i) = ''At Sea'' \<longleftrightarrow>
           event (out ! i) = Some ''SOSP'' \<and> event (out ! (i - 1)) = Some ''EOSP'') \<and>
        (stage (out ! i) = ''At Port'' \<longleftrightarrow>
           event (out ! i) = Some ''EOSP'' \<and> event (out ! (i - 1)) = Some ''SOSP'') \<and>
        (stage (out ! i) = ''Unknown'' \<longleftrightarrow>
           \<not> (event (out ! i) = Some ''SOSP'' \<and> event (out ! (i - 1)) = Some ''EOSP'') \<and>
           \<not> (event (out ! i) = Some ''EOSP'' \<and> event (out ! (i - 1)) = Some ''SOSP''))"
    by (rule th [THEN conjunct2])
  have n: "length out = 2" using len by (simp add: example_log_def)
  have ev: "event (out ! 0) = Some ''EOSP''" "event (out ! 1) = Some ''SOSP''"
    using run example_log_run by (auto simp: port_sail_calc_def)
  have "prev_event (out ! 1) = Some ''EOSP'' \<and> stage (out ! 1) = ''At Sea''"
    using body [rule_format, of 1] n ev by (simp add: stage_cell_def)
  then show ?thesis using ne run n ev unfolding port_sail_calc_def by blast
qed

text \<open>
  C2. The claim: the event time is the origin plus the date stamp as a whole number of
  days plus the time stamp as a fraction of a day. Line 11 passes \<open>unit='D'\<close> to
  \<open>to_timedelta\<close> but no unit to \<open>to_datetime\<close>, so the date stamp is counted in
  nanoseconds. At date stamp 1 and time stamp one half the event time is the origin plus
  one nanosecond plus half a day, not the origin plus a day and a half.
\<close>

theorem event_datetime_date_stamp_unit:
  "event_datetime (add_event_datetime
      \<lparr>dateStamp = 1, timeStamp = 1 / 2, lat = None, lon = None, event = None\<rparr>) =
     origin_ns + 1 + 43200000000000 \<and>
   origin_ns + 1 + 43200000000000 \<noteq> origin_ns + 1 * ns_per_day + 43200000000000"
  by (simp add: add_event_datetime_def to_datetime_def to_timedelta_D_half ns_per_day_def)

text \<open>
  C4. The claim: whenever a latitude or longitude of a record or of the record before it
  is absent, the distance is 0. The lambda of line 30 tests \<open>prev_lat\<close> only. In
  \<open>missing_lat_log\<close> the second record has no latitude and the first has one: its
  distance is the missing value, not 0.
\<close>

theorem missing_latitude_distance:
  "\<exists>out. port_sail_calc missing_lat_log = Inr out \<and>
     lat (out ! 1) = None \<and> prev_lat (out ! 1) \<noteq> None \<and>
     distance_travelled (out ! 1) = None \<and> distance_travelled (out ! 1) \<noteq> Some 0"
  by (simp add: missing_lat_log_run)

text \<open>
  C4 as amended. The script does not fail on missing coordinates: on a row of which a
  coordinate, or a coordinate of the row before, is absent, the lambda of line 30 raises
  nothing. For every record with a record before it, \<open>prev_lat\<close> and \<open>prev_lon\<close> are the
  coordinates of the record before; the distance is 0 when the latitude of the record
  before is absent (so the record after one without a latitude gets 0); when that
  latitude is present and the latitude or longitude of the record itself, or the
  longitude of the record before, is absent, the distance is the missing value.
\<close>

theorem missing_coordinate_distance:
  assumes "csv \<noteq> []"
  shows "(\<forall>r p_lat p_lon.
            lat r = None \<or> lon r = None \<or> p_lat = None \<or> p_lon = None \<longrightarrow>
            (\<exists>v. distance_lambda_with hav (r, p_lat, p_lon) = Inr v)) \<and>
         (\<forall>out. port_sail_calc_with hav csv = Inr out \<longrightarrow>
            length out = length csv \<and>
            (\<forall>i. 0 < i \<and> i < length out \<longrightarrow>
               prev_lat (out ! i) = lat (out ! (i - 1)) \<and>
               prev_lon (out ! i) = lon (out ! (i - 1)) \<and>
               (lat (out ! (i - 1)) = None \<longrightarrow> distance_travelled (out ! i) = Some 0) \<and>
               (lat (out ! (i - 1)) \<noteq> None \<and>
                (lat (out ! i) = None \<or> lon (out ! i) = None \<or> lon (out ! (i - 1)) = None) \<longrightarrow>
                  distance_travelled (out ! i) = None)))"
proof -
  have nofail: "\<exists>v. distance_lambda_with hav (r, p_lat, p_lon) = Inr v"
    if "lat r = None \<or> lon r = None \<or> p_lat = None \<or> p_lon = None" for r p_lat p_lon
    using that by (rule distance_lambda_returns_on_missing)
  have rows: "length out = length csv \<and>
            (\<forall>i. 0 < i \<and> i < length out \<longrightarrow>
               prev_lat (out ! i) = lat (out ! (i - 1)) \<and>
               prev_lon (out ! i) = lon (out ! (i - 1)) \<and>
               (lat (out ! (i - 1)) = None \<longrightarrow> distance_travelled (out ! i) = Some 0) \<and>
               (lat (out ! (i - 1)) \<noteq> None \<and>
                (lat (out ! i) = None \<or> lon (out ! i) = None \<or> lon (out ! (i - 1)) = None) \<longrightarrow>
                  distance_travelled (out ! i) = None))"
    if run: "port_sail_calc_with hav csv = Inr out" for out
  proof -
    have "prev_lat (out ! i) = lat (out ! (i - 1)) \<and>
          prev_lon (out ! i) = lon (out ! (i - 1)) \<and>
          (lat (out ! (i - 1)) = None \<longrightarrow> distance_travelled (out ! i) = Some 0) \<and>
          (lat (out ! (i - 1)) \<noteq> None \<and>
           (lat (out ! i) = None \<or> lon (out ! i) = None \<or> lon (out ! (i - 1)) = None) \<longrightarrow>
             distance_travelled (out ! i) = None)"
      if i: "0 < i" "i < length out" for i
    proof -
      from table_rows(3) [OF run i]
      have pl: "prev_lat (out ! i) = lat (out ! (i - 1))"
        and po: "prev_lon (out ! i) = lon (out ! (i - 1))"
        and d: "distance_lambda_with hav
                  (row.truncate (out ! i), lat (out ! (i - 1)), lon (out ! (i - 1))) =
                Inr (distance_travelled (out ! i))"
        by simp_all
      have tr: "lat (row.truncate (out ! i)) = lat (out ! i)"
        "lon (row.truncate (out ! i)) = lon (out ! i)"
        by (simp_all add: row.truncate_def)
      have z: "distance_travelled (out ! i) = Some 0" if "lat (out ! (i - 1)) = None"
        using d distance_lambda_no_prev [OF that, of hav "row.truncate (out ! i)"] by simp
      have u: "distance_travelled (out ! i) = None"
        if "lat (out ! (i - 1)) \<noteq> None"
          and "lat (out ! i) = None \<or> lon (out ! i) = None \<or> lon (out ! (i - 1)) = None"
        using d distance_lambda_missing [of "lat (out ! (i - 1))" "row.truncate (out ! i)"
            "lon (out ! (i - 1))" hav] that tr
        by simp
      from pl po z u show ?thesis by blast
    qed
    with table_rows(1) [OF run] show ?thesis by blast
  qed
  from nofail rows show ?thesis by blast
qed

theorem missing_coordinate_distance_witness:
  "missing_lat_log \<noteq> [] \<and>
   (\<exists>out. port_sail_calc missing_lat_log = Inr out \<and> length out = 3 \<and>
       lat (out ! 0) \<noteq> None \<and> lat (out ! 1) = None \<and>
       distance_travelled (out ! 1) = None \<and> distance_travelled (out ! 2) = Some 0)"
proof -
  have ne: "missing_lat_log \<noteq> []" by (simp add: missing_lat_log_def)
  obtain out where run: "port_sail_calc_with haversine missing_lat_log = Inr out"
    using missing_lat_log_run unfolding port_sail_calc_def by blast
  note th = missing_coordinate_distance [OF ne, of haversine, THEN conjunct2, rule_format, OF run]
  have len: "length out = length missing_lat_log"
    by (rule th [THEN conjunct1])
  have body: "\<forall>i. 0 < i \<and> i < length out \<longrightarrow>
        prev_lat (out ! i) = lat (out ! (i - 1)) \<and>
        prev_lon (out ! i) = lon (out ! (i - 1)) \<and>
        (lat (out ! (i - 1)) = None \<longrightarrow> distance_travelled (out ! i) = Some 0) \<and>
        (lat (out ! (i - 1)) \<noteq> None \<and>
         (lat (out ! i) = None \<or> lon (out ! i) = None \<or> lon (out ! (i - 1)) = None) \<longrightarrow>
           distance_travelled (out ! i) = None)"
    by (rule th [THEN conjunct2])
  have n: "length out = 3" using len by (simp add: missing_lat_log_def)
  have lats: "lat (out ! 0) \<noteq> None" "lat (out ! 1) = None"
    using run missing_lat_log_run by (auto simp: port_sail_calc_def)
  have "distance_travelled (out ! 1) = None"
    using body [rule_format, of 1] n lats by simp
  moreover have "distance_travelled (out ! 2) = Some 0"
    using body [rule_format, of 2] n lats by simp
  ultimately show ?thesis using ne run n lats unfolding port_sail_calc_def by blast
qed

text \<open>
  C6. For every input that is not empty, the first record of the output has distance 0
  and stage \<open>Unknown\<close>, its four \<open>prev\<close> columns are absent and its duration is
  undefined.
\<close>

theorem first_record_invariant:
  assumes "csv \<noteq> []" and "port_sail_calc_with hav csv = Inr out"
  shows "out \<noteq> [] \<and>
           distance_travelled (out ! 0) = Some 0 \<and> stage (out ! 0) = ''Unknown'' \<and>
           prev_lat (out ! 0) = None \<and> prev_lon (out ! 0) = None \<and>
           prev_event (out ! 0) = None \<and> prev_event_datetime (out ! 0) = None \<and>
           duration_hours (out ! 0) = None"
proof -
  have pos: "0 < length out" using table_rows(1) [OF assms(2)] assms(1) by simp
  then have "out \<noteq> []" by auto
  with table_rows(2) [OF assms(2) pos] show ?thesis by simp
qed

theorem first_record_invariant_witness:
  "example_log \<noteq> [] \<and>
   (\<exists>out. port_sail_calc example_log = Inr out \<and> out \<noteq> [] \<and>
           distance_travelled (out ! 0) = Some 0 \<and> stage (out ! 0) = ''Unknown'' \<and>
           prev_lat (out ! 0) = None \<and> prev_lon (out ! 0) = None \<and>
           prev_event (out ! 0) = None \<and> prev_event_datetime (out ! 0) = None \<and>
           duration_hours (out ! 0) = None)"
proof -
  have ne: "example_log \<noteq> []" by (simp add: example_log_def)
  obtain out where run: "port_sail_calc_with haversine example_log = Inr out"
    using example_log_run unfolding port_sail_calc_def by blast
  from ne run first_record_invariant [OF ne run] show ?thesis
    unfolding port_sail_calc_def by blast
qed

text \<open>
  C7. For every input the output is in non-decreasing order of event time: the event
  time of every record is at most that of the record after it.
\<close>

theorem monotonic_time:
  assumes "csv \<noteq> []" and "port_sail_calc_with hav csv = Inr out"
  shows "length out = length csv \<and>
     (\<forall>i. Suc i < length out \<longrightarrow> event_datetime (out ! i) \<le> event_datetime (out ! Suc i))"
proof -
  have "event_datetime (out ! i) \<le> event_datetime (out ! Suc i)" if "Suc i < length out" for i
    using table_rows(3) [OF assms(2), of "Suc i"] that by simp
  with table_rows(1) [OF assms(2)] show ?thesis by blast
qed

theorem monotonic_time_witness:
  "example_log \<noteq> [] \<and>
   (\<exists>out. port_sail_calc example_log = Inr out \<and> length out = 2 \<and>
       event_datetime (out ! 0) = origin_ns + 2 \<and> event_datetime (out ! 1) = origin_ns + 5 \<and>
       event_datetime (out ! 0) \<le> event_datetime (out ! 1))"
proof -
  have ne: "example_log \<noteq> []" by (simp add: example_log_def)
  obtain out where run: "port_sail_calc_with haversine example_log = Inr out"
    using example_log_run unfolding port_sail_calc_def by blast
  note th = monotonic_time [OF ne run]
  have len: "length out = length example_log"
    by (rule th [THEN conjunct1])
  have body: "\<forall>i. Suc i < length out \<longrightarrow>
                 event_datetime (out ! i) \<le> event_datetime (out ! Suc i)"
    by (rule th [THEN conjunct2])
  have n: "length out = 2" using len by (simp add: example_log_def)
  have ts: "event_datetime (out ! 0) = origin_ns + 2" "event_datetime (out ! 1) = origin_ns + 5"
    using run example_log_run by (auto simp: port_sail_calc_def)
  have "event_datetime (out ! 0) \<le> event_datetime (out ! 1)"
    using body [rule_format, of 0] n by simp
  then show ?thesis using ne run n ts unfolding port_sail_calc_def by blast
qed

text \<open>
  C8. The claim ends: the duration may be negative when the time stamps of the input are
  inconsistent. The durations are taken after the sort of line 14, so no input gives
  a record a negative duration.
\<close>

theorem duration_hours_never_negative:
  "\<not> (\<exists>csv out i h. port_sail_calc csv = Inr out \<and> 0 < i \<and> i < length out \<and>
         duration_hours (out ! i) = Some h \<and> h < 0)"
proof
  assume "\<exists>csv out i h. port_sail_calc csv = Inr out \<and> 0 < i \<and> i < length out \<and>
         duration_hours (out ! i) = Some h \<and> h < 0"
  then obtain csv out i h where h: "port_sail_calc csv = Inr out" "0 < i" "i < length out"
      "duration_hours (out ! i) = Some h" "h < 0"
    by blast
  have run: "port_sail_calc_with haversine csv = Inr out"
    using h(1) by (simp add: port_sail_calc_def)
  from table_rows(3) [OF run h(2,3)]
  have le: "event_datetime (out ! (i - 1)) \<le> event_datetime (out ! i)"
    and du: "duration_hours (out ! i) =
             Some (real_of_int (event_datetime (out ! i) - event_datetime (out ! (i - 1)))
                     / 1000000000 / 3600)"
    by simp_all
  from du h(4)
  have "h = real_of_int (event_datetime (out ! i) - event_datetime (out ! (i - 1)))
              / 1000000000 / 3600"
    by simp
  then have "0 \<le> h" using le by simp
  then show False using h(5) by simp
qed

text \<open>
  C8 as amended. The duration is undefined for the first record of the output and for
  no other; for every record at an index \<open>i > 0\<close> it is the difference of its event time
  and the event time of the record before it, in hours, with no clamping; as the output
  is sorted the difference is never negative, and it is zero for equal event times.
\<close>

theorem duration_hours_raw_difference:
  assumes "csv \<noteq> []" and "port_sail_calc_with hav csv = Inr out"
  shows "length out = length csv \<and>
     (\<forall>i. i < length out \<longrightarrow>
        (i = 0 \<longrightarrow> duration_hours (out ! i) = None) \<and>
        (0 < i \<longrightarrow>
           duration_hours (out ! i) =
             Some (real_of_int (event_datetime (out ! i) - event_datetime (out ! (i - 1)))
                     / 1000000000 / 3600) \<and>
           0 \<le> real_of_int (event_datetime (out ! i) - event_datetime (out ! (i - 1)))
                  / 1000000000 / 3600))"
proof -
  have first: "duration_hours (out ! 0) = None" if "0 < length out"
    using table_rows(2) [OF assms(2) that] by simp
  have later: "duration_hours (out ! i) =
             Some (real_of_int (event_datetime (out ! i) - event_datetime (out ! (i - 1)))
                     / 1000000000 / 3600) \<and>
           0 \<le> real_of_int (event_datetime (out ! i) - event_datetime (out ! (i - 1)))
                     / 1000000000 / 3600"
    if i: "0 < i" "i < length out" for i
  proof -
    from table_rows(3) [OF assms(2) i]
    have le: "event_datetime (out ! (i - 1)) \<le> event_datetime (out ! i)"
      and du: "duration_hours (out ! i) =
             Some (real_of_int (event_datetime (out ! i) - event_datetime (out ! (i - 1)))
                     / 1000000000 / 3600)"
      by simp_all
    have "0 \<le> real_of_int (event_datetime (out ! i) - event_datetime (out ! (i - 1)))
                / 1000000000 / 3600"
      using le by simp
    with du show ?thesis by (rule conjI)
  qed
  have "(i = 0 \<longrightarrow> duration_hours (out ! i) = None) \<and>
        (0 < i \<longrightarrow>
           duration_hours (out ! i) =
             Some (real_of_int (event_datetime (out ! i) - event_datetime (out ! (i - 1)))
                     / 1000000000 / 3600) \<and>
           0 \<le> real_of_int (event_datetime (out ! i) - event_datetime (out ! (i - 1)))
                  / 1000000000 / 3600)"
    if "i < length out" for i
  proof (cases "i = 0")
    case True
    then show ?thesis using first that by simp
  next
    case False
    then have "0 < i" by simp
    from later [OF this that] False show ?thesis by blast
  qed
  with table_rows(1) [OF assms(2)] show ?thesis by blast
qed

theorem duration_hours_raw_difference_witness:
  "example_log \<noteq> [] \<and>
   (\<exists>out. port_sail_calc example_log = Inr out \<and> length out = 2 \<and>
       duration_hours (out ! 0) = None \<and>
       duration_hours (out ! 1) = Some (3 / 1000000000 / 3600))"
proof -
  have ne: "example_log \<noteq> []" by (simp add: example_log_def)
  obtain out where run: "port_sail_calc_with haversine example_log = Inr out"
    using example_log_run unfolding port_sail_calc_def by blast
  note th = duration_hours_raw_difference [OF ne run]
  have len: "length out = length example_log"
    by (rule th [THEN conjunct1])
  have body: "\<forall>i. i < length out \<longrightarrow>
        (i = 0 \<longrightarrow> duration_hours (out ! i) = None) \<and>
        (0 < i \<longrightarrow>
           duration_hours (out ! i) =
             Some (real_of_int (event_datetime (out ! i) - event_datetime (out ! (i - 1)))
                     / 1000000000 / 3600) \<and>
           0 \<le> real_of_int (event_datetime (out ! i) - event_datetime (out ! (i - 1)))
                  / 1000000000 / 3600)"
    by (rule th [THEN conjunct2])
  have n: "length out = 2" using len by (simp add: example_log_def)
  have ts: "event_datetime (out ! 0) = origin_ns + 2" "event_datetime (out ! 1) = origin_ns + 5"
    using run example_log_run by (auto simp: port_sail_calc_def)
  have "duration_hours (out ! 0) = None"
    using body [rule_format, of 0] n by simp
  moreover have "duration_hours (out ! 1) = Some (3 / 1000000000 / 3600)"
    using body [rule_format, of 1] n ts by simp
  ultimately show ?thesis using ne run n unfolding port_sail_calc_def by blast
qed

end
